theory Spec2Isabelle
  imports Main
begin

section \<open>The paginated product list (ProductCard.tsx)\<close>

subsection \<open>Data\<close>

text \<open>
  The value of a product's \<open>id\<close> property as the list view reads it. A property that is
  not there reads as \<open>undefined\<close> (\<open>Missing\<close>); otherwise identifiers are primitive
  values, on which JavaScript's \<open>===\<close> is equality of values, so \<open>===\<close> is modelled by
  HOL's \<open>=\<close> on this type. \<open>undefined === undefined\<close> holds, \<open>undefined === null\<close>
  does not.
\<close>

datatype ident = Missing | IdNull | IdNum int | IdStr string

text \<open>JavaScript truthiness of an identifier, as \<open>!product.id\<close> tests it.\<close>

fun truthy :: "ident \<Rightarrow> bool" where
  "truthy Missing = False"
| "truthy IdNull = False"
| "truthy (IdNum n) = (n \<noteq> 0)"
| "truthy (IdStr s) = (s \<noteq> [])"

text \<open>A product record with the properties the list view reads; \<open>pid\<close> is \<open>id\<close>.\<close>

record product =
  pid :: ident
  name :: "string option"
  images :: "string list"
  deliver_from :: "string option"
  deliver_to :: "string option"
  budget :: "int option"

text \<open>
  What the paged query hands to the effect as \<open>productData\<close>:
  nothing (or any falsy value), an object whose \<open>data\<close> is \<open>undefined\<close> or \<open>null\<close>,
  an object whose \<open>data\<close> is something other than an array, or an object whose
  \<open>data\<close> is an array of products. The elements of the array are product objects,
  as the response type of the query declares them; an element may lack any property.
\<close>

datatype response = NoResponse | NoData | NotArray | DataArray "product list"

text \<open>The component's hooks: four \<open>useState\<close> cells and the \<open>useRef\<close> marker.\<close>

record list_state =
  page :: int
  hasMore :: bool
  allProducts :: "product list"
  isLoadingMore :: bool
  lastLoadedPage :: int

definition initial :: list_state where
  "initial = \<lparr>page = 1, hasMore = True, allProducts = [], isLoadingMore = False,
     lastLoadedPage = 0\<rparr>"

definition pageSize :: nat where
  "pageSize = 8"

subsection \<open>The effect that merges a fetched page\<close>

fun hasValidData :: "response \<Rightarrow> bool" where
  "hasValidData NoResponse = False"
| "hasValidData NoData = False"
| "hasValidData NotArray = True"
| "hasValidData (DataArray data) = True"

fun isArray :: "response \<Rightarrow> bool" where
  "isArray (DataArray data) = True"
| "isArray r = False"

definition hasDataArray :: "response \<Rightarrow> bool" where
  "hasDataArray productData \<longleftrightarrow> hasValidData productData \<and> isArray productData"

text \<open>\<open>productData.data\<close>, read only where \<open>hasDataArray\<close> holds.\<close>

fun data_of :: "response \<Rightarrow> product list" where
  "data_of (DataArray data) = data"
| "data_of r = []"

text \<open>
  \<open>productData.data.filter(newProduct => !prev.some(existingProduct =>
  existingProduct.id === newProduct.id))\<close>
\<close>

definition newProducts :: "product list \<Rightarrow> product list \<Rightarrow> product list" where
  "newProducts prev data =
     filter (\<lambda>newProduct.
       \<not> list_ex (\<lambda>existingProduct. pid existingProduct = pid newProduct) prev) data"

text \<open>
  The updater passed to \<open>setAllProducts\<close>, for the page number \<open>pg\<close> and the array
  \<open>data\<close> captured by the effect. It returns the next list, and whether it called
  \<open>setHasMore(false)\<close> on the way.
\<close>

definition updater :: "int \<Rightarrow> product list \<Rightarrow> product list \<Rightarrow> product list \<times> bool" where
  "updater pg data prev =
     (if pg = 1 then (data, False)
      else (prev @ newProducts prev data,
            length data < pageSize \<or> length (newProducts prev data) = 0))"

text \<open>
  One run of the effect, on the hook state \<open>s\<close>, with the query's \<open>error\<close> (is it
  truthy) and \<open>productData\<close>. The state updates the effect queues are applied together.
\<close>

definition useEffect :: "list_state \<Rightarrow> bool \<Rightarrow> response \<Rightarrow> list_state" where
  "useEffect s error productData =
     (if lastLoadedPage s = page s then s
      else if error then s\<lparr>isLoadingMore := False\<rparr>
      else if hasDataArray productData then
        (let (next, ended) = updater (page s) (data_of productData) (allProducts s)
         in s\<lparr>lastLoadedPage := page s,
              allProducts := next,
              hasMore := (if ended then False else hasMore s),
              isLoadingMore := False\<rparr>)
      else
        s\<lparr>allProducts := (if page s = 1 then [] else allProducts s),
          hasMore := False,
          isLoadingMore := False\<rparr>)"

subsection \<open>The load-more button\<close>

definition handleManualLoad :: "list_state \<Rightarrow> list_state" where
  "handleManualLoad s =
     (if isLoadingMore s \<or> \<not> hasMore s then s
      else s\<lparr>isLoadingMore := True, page := page s + 1\<rparr>)"

subsection \<open>Runs of the component\<close>

text \<open>
  What can happen to a mounted list: the effect runs with some query result, or the
  button is clicked.
\<close>

datatype event = Effect bool response | Click

fun step :: "list_state \<Rightarrow> event \<Rightarrow> list_state" where
  "step s (Effect error productData) = useEffect s error productData"
| "step s Click = handleManualLoad s"

definition run :: "event list \<Rightarrow> list_state" where
  "run evs = foldl step initial evs"

subsection \<open>The grid\<close>

text \<open>
  What \<open>allProducts.map\<close> renders for one product: nothing when the identifier is
  falsy, otherwise a card keyed by the identifier.
\<close>

record card =
  key :: ident
  title :: string
  origin :: string
  destination :: string
  price :: "int option"

definition render_product :: "product \<Rightarrow> card option" where
  "render_product p =
     (if \<not> truthy (pid p) then None
      else Some \<lparr>key = pid p,
        title = (case name p of None \<Rightarrow> ''Unnamed Product'' | Some n \<Rightarrow>
                   if n = [] then ''Unnamed Product'' else n),
        origin = (case deliver_from p of None \<Rightarrow> ''Not specified'' | Some t \<Rightarrow>
                   if t = [] then ''Not specified'' else t),
        destination = (case deliver_to p of None \<Rightarrow> ''Not specified'' | Some t \<Rightarrow>
                   if t = [] then ''Not specified'' else t),
        price = budget p\<rparr>)"

definition grid :: "product list \<Rightarrow> card option list" where
  "grid ps = map render_product ps"

subsection \<open>Sample products\<close>

text \<open>Concrete products, for the instances the theorems below are evaluated at.\<close>

definition item :: "int \<Rightarrow> product" where
  "item n = \<lparr>pid = IdNum n, name = Some ''item'', images = [], deliver_from = None,
     deliver_to = None, budget = Some n\<rparr>"

definition anonymous :: "string \<Rightarrow> product" where
  "anonymous n = \<lparr>pid = Missing, name = Some n, images = [], deliver_from = None,
     deliver_to = None, budget = None\<rparr>"

definition first_page :: "product list" where
  "first_page = map item [1, 2, 3, 4, 5, 6, 7, 8]"

definition second_page :: "product list" where
  "second_page = map item [7, 9, 8, 10, 11]"

text \<open>The state after the first page was merged and the button clicked once.\<close>

definition awaiting_second :: list_state where
  "awaiting_second = \<lparr>page = 2, hasMore = True, allProducts = first_page,
     isLoadingMore = True, lastLoadedPage = 1\<rparr>"

text \<open>Whether an event delivers no array that names one identifier twice.\<close>

fun duplicate_free :: "event \<Rightarrow> bool" where
  "duplicate_free (Effect error (DataArray data)) = distinct (map pid data)"
| "duplicate_free ev = True"

definition first_merged :: list_state where
  "first_merged = \<lparr>page = 1, hasMore = True, allProducts = first_page,
     isLoadingMore = False, lastLoadedPage = 1\<rparr>"

text \<open>A state on page 2 whose list already holds an item without identifier.\<close>

definition with_anonymous :: list_state where
  "with_anonymous = \<lparr>page = 2, hasMore = True,
     allProducts = [item 1, anonymous ''first''], isLoadingMore = True,
     lastLoadedPage = 1\<rparr>"

text \<open>
  The marker never runs ahead of the page, and no load is in flight for a page that
  is already merged.
\<close>

definition marker_behind :: "list_state \<Rightarrow> bool" where
  "marker_behind s \<longleftrightarrow>
     lastLoadedPage s \<le> page s \<and> \<not> (lastLoadedPage s = page s \<and> isLoadingMore s)"

section \<open>The product detail page\<close>

text \<open>
  The catalog entries are plain objects; \<open>handleChange\<close> writes a property whose name is
  computed, so a product is a finite map from property names to values, and a property
  that is not there reads as \<open>None\<close>.
\<close>

datatype jsval = JNull | JNum int | JStr string | JArr "jsval list"
  | JObj "(string \<times> jsval) list"

type_synonym obj = "string \<Rightarrow> jsval option"

record detail_state =
  isEditing :: bool
  editedProduct :: obj

text \<open>
  The two \<open>useState\<close> cells as they are created once the catalog lookup has found
  \<open>product\<close>; when it has not, the page returns before any state exists.
\<close>

definition mount :: "obj \<Rightarrow> detail_state" where
  "mount product = \<lparr>isEditing = False, editedProduct = product\<rparr>"

definition handleEdit :: "detail_state \<Rightarrow> detail_state" where
  "handleEdit s = s\<lparr>isEditing := True\<rparr>"

definition handleCancel :: "obj \<Rightarrow> detail_state \<Rightarrow> detail_state" where
  "handleCancel product s = s\<lparr>isEditing := False, editedProduct := product\<rparr>"

definition handleConfirm :: "detail_state \<Rightarrow> detail_state" where
  "handleConfirm s = s\<lparr>isEditing := False\<rparr>"

text \<open>
  \<open>handleChange\<close> on an event whose target has the given \<open>name\<close> and \<open>value\<close>:
  \<open>{...prevState, [name]: value}\<close>.
\<close>

definition handleChange :: "string \<Rightarrow> string \<Rightarrow> detail_state \<Rightarrow> detail_state" where
  "handleChange target_name target_value s =
     s\<lparr>editedProduct := (editedProduct s)(target_name \<mapsto> JStr target_value)\<rparr>"

datatype detail_event = Edit | Cancel | Confirm | Change string string

fun detail_step :: "obj \<Rightarrow> detail_state \<Rightarrow> detail_event \<Rightarrow> detail_state" where
  "detail_step product s Edit = handleEdit s"
| "detail_step product s Cancel = handleCancel product s"
| "detail_step product s Confirm = handleConfirm s"
| "detail_step product s (Change target_name target_value) =
     handleChange target_name target_value s"

text \<open>\<open>v ?? d\<close>: the default for a property that is missing or \<open>null\<close>.\<close>

fun nullish :: "jsval option \<Rightarrow> jsval \<Rightarrow> jsval" where
  "nullish None d = d"
| "nullish (Some JNull) d = d"
| "nullish (Some v) d = v"

text \<open>
  The three controls of the edit form: the input for the name, the textarea for the
  description and the input for the category. \<open>control_name\<close> is a control's
  \<open>name\<close> attribute, under which its change events arrive at \<open>handleChange\<close>;
  \<open>control_value\<close> is its \<open>value\<close> attribute, the property of the working copy it
  displays.
\<close>

datatype control = NameInput | DescriptionArea | CategoryInput

fun control_name :: "control \<Rightarrow> string" where
  "control_name NameInput = ''name''"
| "control_name DescriptionArea = ''description''"
| "control_name CategoryInput = ''category''"

fun control_value :: "detail_state \<Rightarrow> control \<Rightarrow> jsval option" where
  "control_value s NameInput = editedProduct s ''name''"
| "control_value s DescriptionArea = editedProduct s ''desc''"
| "control_value s CategoryInput = editedProduct s ''category''"

text \<open>The \<open>onChange\<close> of a control whose content has become \<open>v\<close>.\<close>

definition onChange :: "control \<Rightarrow> string \<Rightarrow> detail_state \<Rightarrow> detail_state" where
  "onChange c v s = handleChange (control_name c) v s"

text \<open>
  The three editable places of the page: in edit mode the controls show their
  values; otherwise the paragraphs show the catalog entry's \<open>name\<close>, \<open>desc\<close> and
  \<open>category\<close>.
\<close>

datatype detail_view =
    Inputs "jsval option" "jsval option" "jsval option"
  | Paragraphs "jsval option" "jsval option" jsval

definition render_detail :: "obj \<Rightarrow> detail_state \<Rightarrow> detail_view" where
  "render_detail product s =
     (if isEditing s
      then Inputs (control_value s NameInput) (control_value s DescriptionArea)
             (control_value s CategoryInput)
      else Paragraphs (product ''name'') (product ''desc'')
             (nullish (product ''category'') (JStr ''N/A'')))"

text \<open>A catalog entry, for the instances evaluated below.\<close>

definition catalog_entry :: obj where
  "catalog_entry = [''id'' \<mapsto> JNum 1, ''name'' \<mapsto> JStr ''Bag'',
     ''desc'' \<mapsto> JStr ''A red bag'', ''category'' \<mapsto> JStr ''Fashion'']"

section \<open>Properties of the list\<close>

lemma newProducts_set:
  "newProducts prev data = filter (\<lambda>x. pid x \<notin> pid ` set prev) data"
  unfolding newProducts_def list_ex_iff by (rule filter_cong) (auto simp: image_iff)

text \<open>
  C5. When the last-loaded-page marker already equals the current page, a run of the
  effect changes nothing, whatever the query delivered: the accumulated list, the
  has-more flag and the marker (and every other cell) are as before.
\<close>

theorem C5_already_loaded_page_is_skipped:
  "lastLoadedPage s = page s \<Longrightarrow> useEffect s error productData = s"
  by (simp add: useEffect_def)

text \<open>
  C1. When the effect processes a non-empty array (the marker differs from the page and
  the query reports no error), the accumulated list afterwards is the array itself on
  page 1, and on any other page (so on every page greater than 1) the old list followed
  by those items of the array whose identifier no item of the old list has, in the
  array's order.
\<close>

theorem C1_merge_postcondition:
  assumes "lastLoadedPage s \<noteq> page s" and "data \<noteq> []"
  shows "allProducts (useEffect s False (DataArray data)) =
     (if page s = 1 then data
      else allProducts s @ filter (\<lambda>x. pid x \<notin> pid ` set (allProducts s)) data)"
  using assms
  by (simp add: useEffect_def hasDataArray_def updater_def newProducts_set)

theorem C1_merge_postcondition_witness:
  "lastLoadedPage awaiting_second \<noteq> page awaiting_second \<and> second_page \<noteq> [] \<and>
   lastLoadedPage initial \<noteq> page initial \<and> first_page \<noteq> [] \<and>
   allProducts (useEffect initial False (DataArray first_page)) = first_page \<and>
   allProducts (useEffect awaiting_second False (DataArray second_page)) =
     first_page @ map item [9, 10, 11]"
  using C1_merge_postcondition [of awaiting_second second_page]
    C1_merge_postcondition [of initial first_page]
  by (simp add: awaiting_second_def initial_def first_page_def second_page_def item_def)

text \<open>
  C2, as stated, fails: the first page is taken as it comes, so an array that names an
  identifier twice puts both entries into the accumulated list.
\<close>

theorem C2_duplicate_ids_counterexample:
  "\<not> distinct (map pid (allProducts (run [Effect False (DataArray [item 1, item 1])])))"
  by (simp add: run_def initial_def useEffect_def hasDataArray_def updater_def)

lemma updater_distinct:
  assumes "distinct (map pid prev)" and "distinct (map pid data)"
  shows "distinct (map pid (fst (updater pg data prev)))"
  using assms by (auto simp: updater_def newProducts_set distinct_map_filter image_iff)

lemma useEffect_distinct:
  assumes "distinct (map pid (allProducts s))" and "duplicate_free (Effect error r)"
  shows "distinct (map pid (allProducts (useEffect s error r)))"
proof (cases r)
  case (DataArray data)
  with assms(2) have "distinct (map pid data)" by simp
  from updater_distinct [OF assms(1) this, of "page s"] DataArray assms(1)
  show ?thesis
    by (simp add: useEffect_def hasDataArray_def split_beta)
qed (use assms(1) in \<open>simp_all add: useEffect_def hasDataArray_def\<close>)

lemma step_distinct:
  assumes "distinct (map pid (allProducts s))" and "duplicate_free ev"
  shows "distinct (map pid (allProducts (step s ev)))"
proof (cases ev)
  case (Effect error r)
  with assms useEffect_distinct show ?thesis by simp
next
  case Click
  with assms(1) show ?thesis by (simp add: handleManualLoad_def)
qed

lemma foldl_step_distinct:
  "distinct (map pid (allProducts s)) \<Longrightarrow> list_all duplicate_free evs \<Longrightarrow>
   distinct (map pid (allProducts (foldl step s evs)))"
  by (induction evs arbitrary: s) (simp_all add: step_distinct)

text \<open>
  C2, amended. Over every sequence of effect runs and clicks from the initial state in
  which no delivered array names an identifier twice, no two entries of the accumulated
  list have the same identifier.
\<close>

theorem C2_distinct_ids:
  assumes "list_all duplicate_free evs"
  shows "distinct (map pid (allProducts (run evs)))"
  unfolding run_def
  by (rule foldl_step_distinct [OF _ assms]) (simp add: initial_def)

theorem C2_distinct_ids_witness:
  "list_all duplicate_free
     [Effect False (DataArray first_page), Click, Effect False (DataArray second_page)] \<and>
   distinct (map pid (allProducts
     (run [Effect False (DataArray first_page), Click, Effect False (DataArray second_page)])))
   \<and> length (allProducts
     (run [Effect False (DataArray first_page), Click, Effect False (DataArray second_page)]))
     = 11"
  using C2_distinct_ids
    [of "[Effect False (DataArray first_page), Click, Effect False (DataArray second_page)]"]
  by (simp add: run_def initial_def useEffect_def hasDataArray_def updater_def
      handleManualLoad_def newProducts_def first_page_def second_page_def item_def
      pageSize_def)

theorem C5_already_loaded_page_is_skipped_witness:
  "lastLoadedPage first_merged = page first_merged \<and>
   useEffect first_merged False (DataArray first_page) = first_merged \<and>
   useEffect first_merged True NoResponse = first_merged"
  using C5_already_loaded_page_is_skipped [of first_merged False "DataArray first_page"]
    C5_already_loaded_page_is_skipped [of first_merged True NoResponse]
  by (simp add: first_merged_def)

text \<open>
  C6. A click while a load is in flight or while has-more is false leaves the whole
  state as it is; any other click sets the in-flight flag, adds exactly one to the page
  number and leaves the list, the has-more flag and the marker alone.
\<close>

theorem C6_load_more:
  "(isLoadingMore s \<or> \<not> hasMore s \<longrightarrow> handleManualLoad s = s) \<and>
   (\<not> isLoadingMore s \<and> hasMore s \<longrightarrow>
      isLoadingMore (handleManualLoad s) \<and>
      page (handleManualLoad s) = page s + 1 \<and>
      hasMore (handleManualLoad s) = hasMore s \<and>
      allProducts (handleManualLoad s) = allProducts s \<and>
      lastLoadedPage (handleManualLoad s) = lastLoadedPage s)"
  by (simp add: handleManualLoad_def)

theorem C6_load_more_witness:
  "(isLoadingMore awaiting_second \<or> \<not> hasMore awaiting_second) \<and>
   handleManualLoad awaiting_second = awaiting_second \<and>
   \<not> isLoadingMore first_merged \<and> hasMore first_merged \<and>
   isLoadingMore (handleManualLoad first_merged) \<and>
   page (handleManualLoad first_merged) = 2 \<and>
   handleManualLoad first_merged = awaiting_second"
  using C6_load_more [of awaiting_second] C6_load_more [of first_merged]
  by (simp add: awaiting_second_def first_merged_def handleManualLoad_def)

lemma useEffect_marker_behind:
  "marker_behind s \<Longrightarrow> marker_behind (useEffect s error r)"
  by (auto simp: marker_behind_def useEffect_def split_beta)

lemma handleManualLoad_marker_behind:
  "marker_behind s \<Longrightarrow> marker_behind (handleManualLoad s)"
  by (auto simp: marker_behind_def handleManualLoad_def)

lemma step_marker_behind: "marker_behind s \<Longrightarrow> marker_behind (step s ev)"
  by (cases ev) (simp_all add: useEffect_marker_behind handleManualLoad_marker_behind)

lemma foldl_marker_behind: "marker_behind s \<Longrightarrow> marker_behind (foldl step s evs)"
  by (induction evs arbitrary: s) (simp_all add: step_marker_behind)

lemma run_marker_behind: "marker_behind (run evs)"
  unfolding run_def by (rule foldl_marker_behind) (simp add: marker_behind_def initial_def)

text \<open>
  C7, as stated, fails in its last part: a retry does not request the same page again.
  After an error on page 2 the only control, the load-more button, moves on to page 3.
\<close>

theorem C7_retry_requests_next_page_counterexample:
  "page (run [Effect False (DataArray first_page), Click, Effect True NoResponse]) = 2 \<and>
   page (run [Effect False (DataArray first_page), Click, Effect True NoResponse, Click])
     = 3"
  by (simp add: run_def initial_def useEffect_def hasDataArray_def updater_def
      handleManualLoad_def first_page_def)

text \<open>
  C7, amended. In every state the list can reach, a run of the effect in which the
  query reports an error leaves the in-flight flag false and changes nothing else:
  list, has-more flag, page number and marker are as before, whatever data came with
  the error. A click on load-more after that does not request the same page again:
  while has-more is true it adds one to the page number, otherwise it leaves the page
  number as it is; the marker stays as it was either way.
\<close>

theorem C7_error_clears_in_flight_click_advances:
  "useEffect (run evs) True productData = (run evs)\<lparr>isLoadingMore := False\<rparr> \<and>
   \<not> isLoadingMore (useEffect (run evs) True productData) \<and>
   allProducts (useEffect (run evs) True productData) = allProducts (run evs) \<and>
   hasMore (useEffect (run evs) True productData) = hasMore (run evs) \<and>
   page (useEffect (run evs) True productData) = page (run evs) \<and>
   lastLoadedPage (useEffect (run evs) True productData) = lastLoadedPage (run evs) \<and>
   page (handleManualLoad (useEffect (run evs) True productData)) =
     (if hasMore (run evs) then page (run evs) + 1 else page (run evs)) \<and>
   lastLoadedPage (handleManualLoad (useEffect (run evs) True productData)) =
     lastLoadedPage (run evs)"
proof -
  have "marker_behind (run evs)" by (rule run_marker_behind)
  then have "lastLoadedPage (run evs) = page (run evs) \<Longrightarrow> \<not> isLoadingMore (run evs)"
    by (simp add: marker_behind_def)
  then have err: "useEffect (run evs) True productData = (run evs)\<lparr>isLoadingMore := False\<rparr>"
    by (auto simp: useEffect_def)
  show ?thesis unfolding err by (simp add: handleManualLoad_def)
qed

theorem C7_error_clears_in_flight_click_advances_witness:
  "useEffect (run [Effect False (DataArray first_page), Click]) True NoResponse =
     awaiting_second\<lparr>isLoadingMore := False\<rparr> \<and>
   hasMore (run [Effect False (DataArray first_page), Click]) \<and>
   page (handleManualLoad
     (useEffect (run [Effect False (DataArray first_page), Click]) True NoResponse)) = 3 \<and>
   \<not> hasMore (run [Effect False NoResponse]) \<and>
   page (handleManualLoad (useEffect (run [Effect False NoResponse]) True NoResponse)) = 1"
  using C7_error_clears_in_flight_click_advances
      [of "[Effect False (DataArray first_page), Click]" NoResponse]
    C7_error_clears_in_flight_click_advances [of "[Effect False NoResponse]" NoResponse]
  by (simp add: run_def initial_def useEffect_def hasDataArray_def updater_def
      handleManualLoad_def first_page_def awaiting_second_def)

text \<open>
  C10. On any page but the first, once the old list holds an item without identifier,
  an array is merged by appending only items that have an identifier (one that no old
  item has): every item of the array without identifier is dropped. The old list,
  with its identifier-less items, stays as the front of the new one, and the grid
  renders nothing for the items without identifier.
\<close>

theorem C10_missing_identifiers:
  assumes "lastLoadedPage s \<noteq> page s" and "page s \<noteq> 1"
    and "Missing \<in> pid ` set (allProducts s)"
  shows "allProducts (useEffect s False (DataArray data)) =
       allProducts s @
       filter (\<lambda>x. pid x \<noteq> Missing \<and> pid x \<notin> pid ` set (allProducts s)) data \<and>
     (\<forall>x \<in> set data. pid x = Missing \<longrightarrow> x \<notin> set (newProducts (allProducts s) data)) \<and>
     (\<forall>p \<in> set (allProducts (useEffect s False (DataArray data))).
        pid p = Missing \<longrightarrow> p \<in> set (allProducts s) \<and> render_product p = None)"
proof -
  have eq: "newProducts (allProducts s) data =
      filter (\<lambda>x. pid x \<noteq> Missing \<and> pid x \<notin> pid ` set (allProducts s)) data"
    unfolding newProducts_set using assms(3) by (intro filter_cong) auto
  have new: "allProducts (useEffect s False (DataArray data)) =
      allProducts s @ newProducts (allProducts s) data"
    using assms(1,2) by (simp add: useEffect_def hasDataArray_def updater_def)
  show ?thesis
    unfolding new eq by (auto simp: render_product_def)
qed

theorem C10_missing_identifiers_witness:
  "lastLoadedPage with_anonymous \<noteq> page with_anonymous \<and> page with_anonymous \<noteq> 1 \<and>
   Missing \<in> pid ` set (allProducts with_anonymous) \<and>
   allProducts (useEffect with_anonymous False
     (DataArray [anonymous ''second'', item 2, anonymous ''third''])) =
     [item 1, anonymous ''first'', item 2] \<and>
   grid [item 1, anonymous ''first'', item 2] =
     [render_product (item 1), None, render_product (item 2)]"
  using C10_missing_identifiers
    [of with_anonymous "[anonymous ''second'', item 2, anonymous ''third'']"]
  by (simp add: with_anonymous_def item_def anonymous_def grid_def render_product_def)

text \<open>
  Has-more is only ever set to false: nothing the list can do sets it again.
\<close>

lemma step_hasMore_stays_false: "\<not> hasMore s \<Longrightarrow> \<not> hasMore (step s ev)"
  by (cases ev) (auto simp: useEffect_def handleManualLoad_def split_beta)

lemma foldl_hasMore_stays_false: "\<not> hasMore s \<Longrightarrow> \<not> hasMore (foldl step s evs)"
  by (induction evs arbitrary: s) (simp_all add: step_hasMore_stays_false)

text \<open>
  On every page but the first, a processed array shorter than the page size ends the
  list, and so does an array that brings nothing new.
\<close>

lemma short_later_page_ends:
  assumes "lastLoadedPage s \<noteq> page s" and "page s \<noteq> 1"
    and "length data < pageSize \<or> newProducts (allProducts s) data = []"
  shows "\<not> hasMore (useEffect s False (DataArray data))"
  using assms by (auto simp: useEffect_def hasDataArray_def updater_def)

text \<open>
  C3 fails on the first page. The updater returns the first page's array before it
  reaches the end-of-data check, so a first page of three items, fewer than the page
  size of 8, leaves has-more true; the same array on a later page would clear it
  (\<open>short_later_page_ends\<close>).
\<close>

theorem C3_short_first_page_keeps_hasMore:
  "length (map item [1, 2, 3]) < pageSize \<and>
   hasMore (useEffect initial False (DataArray (map item [1, 2, 3]))) \<and>
   hasMore (run [Effect False (DataArray (map item [1, 2, 3]))])"
  by (simp add: run_def initial_def useEffect_def hasDataArray_def updater_def
      pageSize_def)

text \<open>
  A response without an array, when it is processed, empties the list on page 1 and
  clears has-more on every page; an empty array clears has-more on every page but
  the first.
\<close>

lemma no_array_ends:
  assumes "lastLoadedPage s \<noteq> page s" and "\<not> isArray r"
  shows "\<not> hasMore (useEffect s False r) \<and>
     allProducts (useEffect s False r) = (if page s = 1 then [] else allProducts s)"
  using assms by (simp add: useEffect_def hasDataArray_def)

lemma empty_array_later_page_ends:
  assumes "lastLoadedPage s \<noteq> page s" and "page s \<noteq> 1"
  shows "\<not> hasMore (useEffect s False (DataArray [])) \<and>
     allProducts (useEffect s False (DataArray [])) = allProducts s"
  using assms by (simp add: useEffect_def hasDataArray_def updater_def newProducts_def)

text \<open>
  C4 fails for an empty array on the first page. \<open>hasDataArray\<close> holds of an empty
  array, so the array branch runs, and on page 1 its updater returns before the
  end-of-data check: the list is empty afterwards, but has-more is still true.
\<close>

theorem C4_empty_first_page_keeps_hasMore:
  "hasDataArray (DataArray []) \<and>
   allProducts (useEffect initial False (DataArray [])) = [] \<and>
   hasMore (useEffect initial False (DataArray []))"
  by (simp add: initial_def useEffect_def hasDataArray_def updater_def)

section \<open>Properties of the detail page\<close>

text \<open>
  C8. Whatever was done on the page since it was mounted for \<open>product\<close> (entering edit
  mode, any number of field changes, confirming, cancelling), cancelling then turns
  edit mode off and makes the working copy the original product again, so every
  property of the working copy reads as in the original.
\<close>

theorem C8_cancel_restores_original:
  "handleCancel product (foldl (detail_step product) (mount product) evs) = mount product \<and>
   \<not> isEditing (handleCancel product (foldl (detail_step product) (mount product) evs)) \<and>
   editedProduct (handleCancel product (foldl (detail_step product) (mount product) evs))
     = product \<and>
   editedProduct (handleCancel product
     (foldl (\<lambda>s (n, v). handleChange n v s) (handleEdit (mount product)) changes)) f
     = product f"
  by (simp add: handleCancel_def mount_def)

text \<open>
  Confirming turns edit mode off and leaves the working copy as it is, so a property
  written before confirming keeps its value through confirming and entering edit mode
  again.
\<close>

lemma confirm_keeps_working_copy:
  "\<not> isEditing (handleConfirm s) \<and>
   editedProduct (handleConfirm s) = editedProduct s \<and>
   handleEdit (handleConfirm s) = handleEdit s \<and>
   editedProduct (handleEdit (handleConfirm (handleChange f v s))) f = Some (JStr v)"
  by (simp add: handleConfirm_def handleEdit_def handleChange_def)

text \<open>
  The name and the category inputs display the property they write, so what was typed
  into them is shown again; the description textarea writes \<open>description\<close> and
  displays \<open>desc\<close>, so it shows what it showed before anything was typed.
\<close>

lemma name_and_category_edits_shown:
  "c \<noteq> DescriptionArea \<Longrightarrow>
   control_value (handleEdit (handleConfirm (onChange c v s))) c = Some (JStr v)"
  by (cases c) (simp_all add: handleConfirm_def handleEdit_def handleChange_def onChange_def)

lemma description_edit_not_shown:
  "control_value (handleEdit (handleConfirm (onChange DescriptionArea v s))) DescriptionArea
     = control_value s DescriptionArea"
  by (simp add: handleConfirm_def handleEdit_def handleChange_def onChange_def)

text \<open>
  C9 fails for the description. On the page of \<open>catalog_entry\<close>: enter edit mode,
  change the description textarea to \<open>A blue bag\<close>, confirm, enter edit mode again.
  The working copy has kept the edit, as property \<open>description\<close>, but the textarea
  displays property \<open>desc\<close>: the form shows the original description, and looks as it
  does when nothing was ever typed.
\<close>

theorem C9_description_edit_shows_original:
  "editedProduct (foldl (detail_step catalog_entry) (mount catalog_entry)
      [Edit, Change (control_name DescriptionArea) ''A blue bag'', Confirm, Edit])
      ''description'' = Some (JStr ''A blue bag'') \<and>
   render_detail catalog_entry (foldl (detail_step catalog_entry) (mount catalog_entry)
      [Edit, Change (control_name DescriptionArea) ''A blue bag'', Confirm, Edit]) =
     Inputs (Some (JStr ''Bag'')) (Some (JStr ''A red bag'')) (Some (JStr ''Fashion'')) \<and>
   render_detail catalog_entry (foldl (detail_step catalog_entry) (mount catalog_entry)
      [Edit, Change (control_name DescriptionArea) ''A blue bag'', Confirm, Edit]) =
     render_detail catalog_entry (handleEdit (mount catalog_entry))"
  by (simp add: mount_def handleEdit_def handleConfirm_def handleChange_def
      render_detail_def catalog_entry_def)

end
